theory Spec2Isabelle
  imports Main "HOL-Library.AList"
begin

section \<open>Ainneve archetypes: data model\<close>

text \<open>
  Shallow embedding of \<^verbatim>\<open>world/archetypes.py\<close>. Python integers are \<^typ>\<open>int\<close>,
  strings are byte strings (\<^typ>\<open>string\<close>), a raised exception is the \<open>Inl\<close> branch of
  a sum, \<open>None\<close> is the \<open>None\<close> of an option.
\<close>

datatype error =
    ArchetypeException string
  | TypeError
  | KeyError

text \<open>The value of the \<^verbatim>\<open>'type'\<close> key of a trait dictionary.\<close>

datatype trait_type = Trait | Gauge | Counter

datatype pyval = PInt int | PStr string

text \<open>
  One trait dictionary. The keys \<^verbatim>\<open>'min'\<close>, \<^verbatim>\<open>'max'\<close> and the factors that
  \<^verbatim>\<open>calculate_secondary_traits\<close> attaches to \<^verbatim>\<open>STR\<close> are optional: \<open>None\<close> is
  an absent key. \<open>tmod\<close>, \<open>tmin\<close>, \<open>tmax\<close>, \<open>ttype\<close> and \<open>tname\<close> are the keys
  \<^verbatim>\<open>'mod'\<close>, \<^verbatim>\<open>'min'\<close>, \<^verbatim>\<open>'max'\<close>, \<^verbatim>\<open>'type'\<close> and \<^verbatim>\<open>'name'\<close>.
\<close>

record trait =
  ttype :: trait_type
  base :: int
  tmod :: int
  tmin :: "int option"
  tmax :: "int option"
  tname :: string
  extra :: "(string \<times> pyval list) list"
  carry_factor :: "int option"
  lift_factor :: "int option"
  push_factor :: "int option"

type_synonym trait_table = "(string \<times> trait) list"

record archetype =
  name :: "string option"
  traits :: trait_table
  health_roll :: "string option"

record character =
  db_archetype :: "string option"
  db_traits :: "trait_table option"

subsection \<open>Module constants\<close>

definition VALID_ARCHETYPES :: "string list" where
  "VALID_ARCHETYPES = [''Arcanist'', ''Scout'', ''Warrior'']"

definition PRIMARY_TRAITS :: "string list" where
  "PRIMARY_TRAITS = [''STR'', ''PER'', ''INT'', ''DEX'', ''CHA'', ''VIT'', ''MAG'']"

definition SECONDARY_TRAITS :: "string list" where
  "SECONDARY_TRAITS = [''HP'', ''SP'', ''BM'', ''WM'']"

definition SAVE_ROLLS :: "string list" where
  "SAVE_ROLLS = [''FORT'', ''REFL'', ''WILL'']"

definition COMBAT_TRAITS :: "string list" where
  "COMBAT_TRAITS = [''ATKM'', ''ATKR'', ''ATKU'', ''DEF'', ''PP'']"

definition OTHER_TRAITS :: "string list" where
  "OTHER_TRAITS = [''LV'', ''XP'', ''ENC'', ''MV'', ''ACT'']"

definition ALL_TRAITS :: "string list" where
  "ALL_TRAITS = PRIMARY_TRAITS @ SECONDARY_TRAITS @ SAVE_ROLLS @ COMBAT_TRAITS @ OTHER_TRAITS"

definition TOTAL_PRIMARY_POINTS :: int where
  "TOTAL_PRIMARY_POINTS = 30"

subsection \<open>Byte-string methods used by the module\<close>

text \<open>
  \<^verbatim>\<open>str.capitalize\<close> and \<^verbatim>\<open>str.title\<close> on byte strings: only the ASCII letters
  are cased.
\<close>

definition lowers :: string where
  "lowers = ''abcdefghijklmnopqrstuvwxyz''"

definition uppers :: string where
  "uppers = ''ABCDEFGHIJKLMNOPQRSTUVWXYZ''"

definition islower :: "char \<Rightarrow> bool" where
  "islower c = (c \<in> set lowers)"

definition isupper :: "char \<Rightarrow> bool" where
  "isupper c = (c \<in> set uppers)"

definition toupper :: "char \<Rightarrow> char" where
  "toupper c = (case map_of (zip lowers uppers) c of Some u \<Rightarrow> u | None \<Rightarrow> c)"

definition tolower :: "char \<Rightarrow> char" where
  "tolower c = (case map_of (zip uppers lowers) c of Some l \<Rightarrow> l | None \<Rightarrow> c)"

text \<open>\<^verbatim>\<open>s.capitalize()\<close>: first byte to upper case, every other byte to lower case.\<close>

fun capitalize :: "string \<Rightarrow> string" where
  "capitalize [] = []"
| "capitalize (c # cs) = toupper c # map tolower cs"

text \<open>
  \<^verbatim>\<open>s.title()\<close>: a letter that follows a letter is lowered, a letter that does not is
  raised; the flag is \<^verbatim>\<open>previous_is_cased\<close>.
\<close>

fun title_from :: "bool \<Rightarrow> string \<Rightarrow> string" where
  "title_from prev [] = []"
| "title_from prev (c # cs) =
     (if islower c then (if prev then c else toupper c) # title_from True cs
      else if isupper c then (if prev then tolower c else c) # title_from True cs
      else c # title_from False cs)"

definition title :: "string \<Rightarrow> string" where
  "title s = title_from False s"

text \<open>\<^verbatim>\<open>name.split('-', 1)\<close> for a name that holds a hyphen: the two parts.\<close>

definition split_hyphen :: "string \<Rightarrow> string \<times> string" where
  "split_hyphen s =
     (takeWhile (\<lambda>c. c \<noteq> CHR ''-'') s, drop 1 (dropWhile (\<lambda>c. c \<noteq> CHR ''-'') s))"

section \<open>Archetype classes\<close>

text \<open>A trait dictionary literal with the keys every entry of the table has.\<close>

definition entry :: "trait_type \<Rightarrow> int \<Rightarrow> int \<Rightarrow> string \<Rightarrow> trait" where
  "entry ty b m nm =
     \<lparr>ttype = ty, base = b, tmod = m, tmin = None, tmax = None, tname = nm, extra = [],
      carry_factor = None, lift_factor = None, push_factor = None\<rparr>"

text \<open>\<^verbatim>\<open>Archetype.__init__\<close>: the base class, with default values for all traits.\<close>

definition Archetype :: archetype where
  "Archetype =
     \<lparr>name = None,
      traits =
        [(''STR'', entry Trait 1 0 ''Strength''),
         (''PER'', entry Trait 1 0 ''Perception''),
         (''INT'', entry Trait 1 0 ''Intelligence''),
         (''DEX'', entry Trait 1 0 ''Dexterity''),
         (''CHA'', entry Trait 1 0 ''Charisma''),
         (''VIT'', entry Trait 1 0 ''Vitality''),
         (''MAG'', entry Trait 0 0 ''Magic''),
         (''BM'', (entry Gauge 0 0 ''Black Mana'')\<lparr>tmin := Some 0, tmax := Some 0\<rparr>),
         (''WM'', (entry Gauge 0 0 ''White Mana'')\<lparr>tmin := Some 0, tmax := Some 0\<rparr>),
         (''HP'', entry Gauge 0 0 ''Health''),
         (''SP'', entry Gauge 0 0 ''Stamina''),
         (''FORT'', entry Trait 0 0 ''Fortitude Save''),
         (''REFL'', entry Trait 0 0 ''Reflex Save''),
         (''WILL'', entry Trait 0 0 ''Will Save''),
         (''ATKM'', entry Trait 0 0 ''Melee Attack''),
         (''ATKR'', entry Trait 0 0 ''Ranged Attack''),
         (''ATKU'', entry Trait 0 0 ''Unarmed Attack''),
         (''DEF'', entry Trait 0 0 ''Defense''),
         (''ACT'', (entry Counter 0 0 ''Action Points'')\<lparr>tmin := Some 0\<rparr>),
         (''PP'', (entry Counter 0 0 ''Power Points'')\<lparr>tmin := Some 0\<rparr>),
         (''ENC'', (entry Counter 0 0 ''Carry Weight'')\<lparr>tmin := Some 0\<rparr>),
         (''MV'', entry Trait 6 0 ''Movement Points''),
         (''LV'', entry Trait 0 0 ''Level''),
         (''XP'', (entry Trait 0 0 ''Experience'')
            \<lparr>extra := [(''level_boundaries'',
                        [PInt 500, PInt 2000, PInt 4500, PStr ''unlimited''])]\<rparr>)],
      health_roll = None\<rparr>"

text \<open>\<^verbatim>\<open>self.traits[key]['base'] = v\<close> and \<^verbatim>\<open>self.traits[key]['mod'] = v\<close>.\<close>

definition set_base :: "string \<Rightarrow> int \<Rightarrow> archetype \<Rightarrow> archetype" where
  "set_base key v a = a\<lparr>traits := AList.map_entry key (\<lambda>t. t\<lparr>base := v\<rparr>) (traits a)\<rparr>"

definition set_mod :: "string \<Rightarrow> int \<Rightarrow> archetype \<Rightarrow> archetype" where
  "set_mod key v a = a\<lparr>traits := AList.map_entry key (\<lambda>t. t\<lparr>tmod := v\<rparr>) (traits a)\<rparr>"

definition Arcanist :: archetype where
  "Arcanist =
     (set_base ''MV'' 7 (set_mod ''SP'' (- 2) (set_base ''MAG'' 6 (set_base ''CHA'' 4
        (set_base ''INT'' 6 (set_base ''PER'' 4 (Archetype\<lparr>name := Some ''Arcanist''\<rparr>)))))))
     \<lparr>health_roll := Some ''1d6-1''\<rparr>"

definition Scout :: archetype where
  "Scout =
     (set_base ''DEX'' 4 (set_base ''INT'' 6 (set_base ''PER'' 6 (set_base ''STR'' 4
        (Archetype\<lparr>name := Some ''Scout''\<rparr>)))))
     \<lparr>health_roll := Some ''1d6''\<rparr>"

definition Warrior :: archetype where
  "Warrior =
     (set_base ''MV'' 5 (set_base ''PP'' 2 (set_base ''VIT'' 6 (set_base ''CHA'' 4
        (set_base ''DEX'' 4 (set_base ''STR'' 6 (Archetype\<lparr>name := Some ''Warrior''\<rparr>)))))))
     \<lparr>health_roll := Some ''1d6+1''\<rparr>"

section \<open>Loading archetypes\<close>

text \<open>
  The module namespace that \<^verbatim>\<open>globals()\<close> returns: the five classes, the module's
  functions (each needs at least one argument), and its data (tuples, the integer
  constant and the module attributes), none of which can be called.
\<close>

datatype global =
    ArchetypeClass
  | ArcanistClass
  | ScoutClass
  | WarriorClass
  | ArchetypeExceptionClass
  | Function
  | Data

definition module_globals :: "(string \<times> global) list" where
  "module_globals =
     [(''__name__'', Data), (''__doc__'', Data), (''__file__'', Data),
      (''__package__'', Data), (''__builtins__'', Data),
      (''roll_max'', Function),
      (''ArchetypeException'', ArchetypeExceptionClass),
      (''VALID_ARCHETYPES'', Data),
      (''PRIMARY_TRAITS'', Data), (''SECONDARY_TRAITS'', Data), (''SAVE_ROLLS'', Data),
      (''COMBAT_TRAITS'', Data), (''OTHER_TRAITS'', Data), (''ALL_TRAITS'', Data),
      (''TOTAL_PRIMARY_POINTS'', Data),
      (''apply_archetype'', Function), (''get_remaining_allocation'', Function),
      (''validate_primary_traits'', Function), (''calculate_secondary_traits'', Function),
      (''load_archetype'', Function), (''_make_dual'', Function),
      (''Archetype'', ArchetypeClass), (''Arcanist'', ArcanistClass),
      (''Scout'', ScoutClass), (''Warrior'', WarriorClass)]"

text \<open>
  \<^verbatim>\<open>globals().get(name, None)()\<close>: calling \<open>None\<close>, a tuple, an integer or a
  string, or a function or the exception class without its argument, raises
  \<^verbatim>\<open>TypeError\<close>; calling an archetype class constructs an instance.
\<close>

fun call_global :: "global option \<Rightarrow> error + archetype" where
  "call_global None = Inl TypeError"
| "call_global (Some ArchetypeClass) = Inr Archetype"
| "call_global (Some ArcanistClass) = Inr Arcanist"
| "call_global (Some ScoutClass) = Inr Scout"
| "call_global (Some WarriorClass) = Inr Warrior"
| "call_global (Some ArchetypeExceptionClass) = Inl TypeError"
| "call_global (Some Function) = Inl TypeError"
| "call_global (Some Data) = Inl TypeError"

text \<open>\<^verbatim>\<open>'-' in name\<close>, which raises \<^verbatim>\<open>TypeError\<close> when the name is \<open>None\<close>.\<close>

fun hyphen_in :: "string option \<Rightarrow> error + bool" where
  "hyphen_in None = Inl TypeError"
| "hyphen_in (Some s) = Inr (CHR ''-'' \<in> set s)"

text \<open>\<^verbatim>\<open>d.get(key, default)\<close>\<close>

definition dict_get :: "('k \<times> 'v) list \<Rightarrow> 'k \<Rightarrow> 'v \<Rightarrow> 'v" where
  "dict_get d key dflt = (case map_of d key of Some v \<Rightarrow> v | None \<Rightarrow> dflt)"

text \<open>The table \<^verbatim>\<open>names\<close> of \<^verbatim>\<open>_make_dual\<close>, keyed by frozen sets of names.\<close>

definition names :: "(string option set \<times> string) list" where
  "names =
     [({Some ''Warrior'', Some ''Scout''}, ''Warrior-Scout''),
      ({Some ''Warrior'', Some ''Arcanist''}, ''Warrior-Arcanist''),
      ({Some ''Scout'', Some ''Arcanist''}, ''Arcanist-Scout'')]"

text \<open>
  The body of the loop of \<^verbatim>\<open>_make_dual\<close> for one entry of the new table: the base is
  written first, and the entry read as the default of the second \<^verbatim>\<open>get\<close> is the
  entry with its new base.
\<close>

definition merge_trait :: "archetype \<Rightarrow> archetype \<Rightarrow> string \<Rightarrow> trait \<Rightarrow> trait" where
  "merge_trait a b key trait =
     (let trait1 = trait\<lparr>base := (base (dict_get (traits a) key trait) +
                                   base (dict_get (traits b) key trait)) div 2\<rparr>
      in trait1\<lparr>tmod := (tmod (dict_get (traits a) key trait1) +
                         tmod (dict_get (traits b) key trait1)) div 2\<rparr>)"

text \<open>
  \<^verbatim>\<open>min(x, y, key=roll_max)\<close>: the first of the two with the least key.
  \<^verbatim>\<open>roll_max\<close> belongs to \<^verbatim>\<open>world.rulebook\<close> and is a parameter here.
\<close>

definition min_by :: "('a \<Rightarrow> int) \<Rightarrow> 'a \<Rightarrow> 'a \<Rightarrow> 'a" where
  "min_by key x y = (if key y < key x then y else x)"

text \<open>\<^verbatim>\<open>_make_dual(a, b)\<close>\<close>

definition make_dual :: "(string option \<Rightarrow> int) \<Rightarrow> archetype \<Rightarrow> archetype \<Rightarrow> error + archetype" where
  "make_dual roll_max a b =
     (case hyphen_in (name a) of
        Inl e \<Rightarrow> Inl e
      | Inr True \<Rightarrow> Inl (ArchetypeException ''Cannot create Triple-Archetype'')
      | Inr False \<Rightarrow>
          (case hyphen_in (name b) of
             Inl e \<Rightarrow> Inl e
           | Inr True \<Rightarrow> Inl (ArchetypeException ''Cannot create Triple-Archetype'')
           | Inr False \<Rightarrow>
               if name a = name b
               then Inl (ArchetypeException ''Cannot create dual of the same Archetype'')
               else
                 (let dual = Archetype;
                      dual = dual\<lparr>traits :=
                               map (\<lambda>(key, trait). (key, merge_trait a b key trait)) (traits dual)\<rparr>;
                      dual = dual\<lparr>health_roll :=
                               min_by roll_max (health_roll a) (health_roll b)\<rparr>
                  in case map_of names {name a, name b} of
                       None \<Rightarrow> Inl KeyError
                     | Some n \<Rightarrow> Inr (dual\<lparr>name := Some n\<rparr>))))"

text \<open>
  \<^verbatim>\<open>load_archetype(name)\<close>. The two parts of a hyphenated name are loaded from left to
  right, so an exception of the first part is the one that is raised. Only the call of
  the looked-up global is inside the \<^verbatim>\<open>try\<close>, whose \<^verbatim>\<open>TypeError\<close> becomes an
  \<^verbatim>\<open>ArchetypeException\<close>.
\<close>

function load_archetype :: "(string option \<Rightarrow> int) \<Rightarrow> string \<Rightarrow> error + archetype" where
  "load_archetype roll_max name0 =
     (let name = title name0 in
      if CHR ''-'' \<in> set name then
        (case load_archetype roll_max (fst (split_hyphen name)) of
           Inl e \<Rightarrow> Inl e
         | Inr a \<Rightarrow>
             (case load_archetype roll_max (snd (split_hyphen name)) of
                Inl e \<Rightarrow> Inl e
              | Inr b \<Rightarrow> make_dual roll_max a b))
      else
        (case call_global (map_of module_globals name) of
           Inl TypeError \<Rightarrow> Inl (ArchetypeException ''Invalid archetype specified.'')
         | Inl e \<Rightarrow> Inl e
         | Inr archetype \<Rightarrow> Inr archetype))"
  by pat_completeness auto
termination
proof -
  have len: "length (title_from prev s) = length s" for prev s
    by (induction s arbitrary: prev) simp_all
  have fst_less: "length (fst (split_hyphen s)) < length s" if "CHR ''-'' \<in> set s" for s
    using that by (induction s) (auto simp: split_hyphen_def)
  have snd_less: "length (snd (split_hyphen s)) < length s" if "CHR ''-'' \<in> set s" for s
    using that
    by (induction s)
      (auto simp: split_hyphen_def less_Suc_eq_le intro: le_trans [OF length_dropWhile_le])
  show ?thesis
    by (relation "measure (\<lambda>(roll_max, name0). length name0)")
      (auto dest: fst_less snd_less simp: title_def len)
qed

declare load_archetype.simps [simp del]

text \<open>\<^verbatim>\<open>apply_archetype(char, name, reset=False)\<close>\<close>

definition apply_archetype ::
  "(string option \<Rightarrow> int) \<Rightarrow> character \<Rightarrow> string \<Rightarrow> bool \<Rightarrow> error + character" where
  "apply_archetype roll_max char name0 reset =
     (let name = capitalize name0 in
      if name \<notin> set VALID_ARCHETYPES then Inl (ArchetypeException ''Invalid archetype.'')
      else
        (case (case db_archetype char of
                 None \<Rightarrow> Inr name
               | Some existing \<Rightarrow>
                   if \<not> reset then
                     if existing = name
                     then Inl (ArchetypeException (''Character is already a '' @ name))
                     else Inr (existing @ ''-'' @ name)
                   else Inr name) of
           Inl e \<Rightarrow> Inl e
         | Inr name \<Rightarrow>
             (case load_archetype roll_max name of
                Inl e \<Rightarrow> Inl e
              | Inr archetype \<Rightarrow>
                  Inr (char\<lparr>db_traits := Some (traits archetype),
                            db_archetype := archetype.name archetype\<rparr>))))"

section \<open>Trait stores\<close>

text \<open>
  Modelled from the spec: the trait store that \<^verbatim>\<open>get_remaining_allocation\<close>,
  \<^verbatim>\<open>validate_primary_traits\<close> and \<^verbatim>\<open>calculate_secondary_traits\<close> receive is a
  \<^verbatim>\<open>TraitFactory\<close> of \<^verbatim>\<open>world.traits\<close>, which is not among the sources. The spec has
  it as a mapping from trait code to a live trait definition in which every code of
  \<^verbatim>\<open>ALL_TRAITS\<close> is present; \<^verbatim>\<open>traits[t]\<close> and \<^verbatim>\<open>traits.HP\<close> both read the entry of
  a code, and assigning to an attribute of an entry stores the value.
\<close>

type_synonym trait_store = "string \<Rightarrow> trait"

text \<open>
  Modelled from the spec: the property \<^verbatim>\<open>actual\<close> of a trait of \<^verbatim>\<open>world.traits\<close>.
  The modifier is added to the base to form the actual value, which is clamped into
  \<open>[min, max]\<close> when both bounds are defined.
\<close>

definition actual :: "trait \<Rightarrow> int" where
  "actual t =
     (case (tmin t, tmax t) of
        (Some lo, Some hi) \<Rightarrow> max lo (min hi (base t + tmod t))
      | _ \<Rightarrow> base t + tmod t)"

text \<open>
  Modelled from the spec: the read \<^verbatim>\<open>traits[t].base\<close> of a trait store of
  \<^verbatim>\<open>world.traits\<close>, as an operation on the store: it returns the base of the entry
  and the store after the read.
\<close>

definition read_base :: "string \<Rightarrow> trait_store \<Rightarrow> int \<times> trait_store" where
  "read_base t ts = (base (ts t), ts)"

text \<open>
  \<^verbatim>\<open>sum(traits[t].base for t in codes)\<close>: the codes are read from left to right, each
  on the store the previous read has left, and added to the running total, which starts
  at 0.
\<close>

fun sum_bases :: "string list \<Rightarrow> int \<Rightarrow> trait_store \<Rightarrow> int \<times> trait_store" where
  "sum_bases [] acc ts = (acc, ts)"
| "sum_bases (t # codes) acc ts =
     (case read_base t ts of (b, ts') \<Rightarrow> sum_bases codes (acc + b) ts')"

text \<open>
  \<^verbatim>\<open>get_remaining_allocation(traits)\<close>: the returned number, and the store the caller
  holds after the call.
\<close>

definition get_remaining_allocation :: "trait_store \<Rightarrow> int \<times> trait_store" where
  "get_remaining_allocation ts =
     (case sum_bases PRIMARY_TRAITS 0 ts of
        (allocated, ts') \<Rightarrow> (TOTAL_PRIMARY_POINTS - allocated, ts'))"

text \<open>\<^verbatim>\<open>validate_primary_traits(traits)\<close>\<close>

definition validate_primary_traits :: "trait_store \<Rightarrow> bool \<times> string option" where
  "validate_primary_traits ts =
     (let total = sum_list (map (\<lambda>t. base (ts t)) PRIMARY_TRAITS) in
      if total > TOTAL_PRIMARY_POINTS then (False, Some ''Too many trait points allocated.'')
      else if total < TOTAL_PRIMARY_POINTS then (False, Some ''Not enough trait points allocated.'')
      else (True, None))"

text \<open>
  The assignment statements of \<^verbatim>\<open>calculate_secondary_traits\<close>, each as a function
  from the store before the statement to the store after it:
  \<^verbatim>\<open>traits.<dst>.base = traits.<src>.actual\<close>,
  \<^verbatim>\<open>traits.<dst>.max = 10 if traits.MAG.base > 0 else 0\<close>,
  the three factors attached to \<^verbatim>\<open>STR\<close>, and
  \<^verbatim>\<open>traits.ENC.max = traits.STR.lift_factor * traits.STR.actual\<close>, which reads
  \<^verbatim>\<open>lift_factor\<close> back from the store.
\<close>

definition assign_base :: "string \<Rightarrow> string \<Rightarrow> trait_store \<Rightarrow> trait_store" where
  "assign_base dst src ts = ts(dst := (ts dst)\<lparr>base := actual (ts src)\<rparr>)"

definition assign_mana_max :: "string \<Rightarrow> trait_store \<Rightarrow> trait_store" where
  "assign_mana_max dst ts =
     ts(dst := (ts dst)\<lparr>tmax := Some (if base (ts ''MAG'') > 0 then 10 else 0)\<rparr>)"

definition assign_carry_factor :: "int \<Rightarrow> trait_store \<Rightarrow> trait_store" where
  "assign_carry_factor v ts = ts(''STR'' := (ts ''STR'')\<lparr>carry_factor := Some v\<rparr>)"

definition assign_lift_factor :: "int \<Rightarrow> trait_store \<Rightarrow> trait_store" where
  "assign_lift_factor v ts = ts(''STR'' := (ts ''STR'')\<lparr>lift_factor := Some v\<rparr>)"

definition assign_push_factor :: "int \<Rightarrow> trait_store \<Rightarrow> trait_store" where
  "assign_push_factor v ts = ts(''STR'' := (ts ''STR'')\<lparr>push_factor := Some v\<rparr>)"

definition assign_enc_max :: "trait_store \<Rightarrow> trait_store" where
  "assign_enc_max ts =
     ts(''ENC'' := (ts ''ENC'')\<lparr>tmax :=
          map_option (\<lambda>f. f * actual (ts ''STR'')) (lift_factor (ts ''STR''))\<rparr>)"

text \<open>
  \<^verbatim>\<open>calculate_secondary_traits(traits)\<close>: the statements in the order of the source,
  each on the store the previous one has left.
\<close>

definition calculate_secondary_traits :: "trait_store \<Rightarrow> trait_store" where
  "calculate_secondary_traits ts0 =
     (let ts = assign_base ''HP'' ''VIT'' ts0;
          ts = assign_base ''SP'' ''VIT'' ts;
          ts = assign_base ''FORT'' ''VIT'' ts;
          ts = assign_base ''REFL'' ''DEX'' ts;
          ts = assign_base ''WILL'' ''INT'' ts;
          ts = assign_base ''ATKM'' ''STR'' ts;
          ts = assign_base ''ATKR'' ''PER'' ts;
          ts = assign_base ''ATKU'' ''DEX'' ts;
          ts = assign_base ''DEF'' ''DEX'' ts;
          ts = assign_mana_max ''BM'' ts;
          ts = assign_mana_max ''WM'' ts;
          ts = assign_carry_factor 10 ts;
          ts = assign_lift_factor 20 ts;
          ts = assign_push_factor 40 ts
      in assign_enc_max ts)"

subsection \<open>A sample of the parameter\<close>

text \<open>
  A concrete \<^verbatim>\<open>roll_max\<close> for the evaluations at fixed inputs: the highest roll of the
  three health-roll tokens of the module.
\<close>

definition sample_roll_max :: "string option \<Rightarrow> int" where
  "sample_roll_max r =
     (if r = Some ''1d6+1'' then 7 else if r = Some ''1d6'' then 6
      else if r = Some ''1d6-1'' then 5 else 0)"

subsection \<open>Sample stores\<close>

text \<open>
  Modelled from the spec: the store that the \<^verbatim>\<open>TraitFactory\<close> of a character presents
  for the trait table in \<^verbatim>\<open>char.db.traits\<close> (\<^verbatim>\<open>world.traits\<close> is not among the
  sources): the entry of a code is the entry of the table. A code that the table lacks
  is given an all-zero entry here; the stores below are built from complete tables.
\<close>

definition trait_factory :: "trait_table \<Rightarrow> trait_store" where
  "trait_factory tbl code = dict_get tbl code (entry Trait 0 0 code)"

text \<open>\<^verbatim>\<open>traits.<code>.base += n\<close>\<close>

definition add_base :: "string \<Rightarrow> int \<Rightarrow> trait_store \<Rightarrow> trait_store" where
  "add_base code n ts = ts(code := (ts code)\<lparr>base := base (ts code) + n\<rparr>)"

text \<open>
  The store of \<^verbatim>\<open>CharTraitsTestCase.setUp\<close> in \<^verbatim>\<open>commands/tests.py\<close>: a Warrior
  with three more points of \<^verbatim>\<open>STR\<close>, one of \<^verbatim>\<open>PER\<close>, one of \<^verbatim>\<open>DEX\<close> and three of
  \<^verbatim>\<open>VIT\<close>, which spends exactly 30 points.
\<close>

definition test_store :: trait_store where
  "test_store =
     add_base ''VIT'' 3 (add_base ''DEX'' 1 (add_base ''PER'' 1 (add_base ''STR'' 3
       (trait_factory (traits Warrior)))))"

text \<open>A store that spends 30 points with \<^verbatim>\<open>STR\<close> at 11 and \<^verbatim>\<open>MAG\<close> at 14.\<close>

definition lopsided_store :: trait_store where
  "lopsided_store = add_base ''MAG'' 14 (add_base ''STR'' 10 (trait_factory (traits Archetype)))"

text \<open>A store that spends 33 points.\<close>

definition overspent_store :: trait_store where
  "overspent_store = add_base ''STR'' 3 test_store"

section \<open>Evaluation lemmas\<close>

lemmas str_simps =
  title_def islower_def isupper_def toupper_def tolower_def lowers_def uppers_def

lemma load_Warrior: "load_archetype rm ''Warrior'' = Inr Warrior"
  by (simp add: load_archetype.simps str_simps module_globals_def)

lemma load_Scout: "load_archetype rm ''Scout'' = Inr Scout"
  by (simp add: load_archetype.simps str_simps module_globals_def)

lemma load_Arcanist: "load_archetype rm ''Arcanist'' = Inr Arcanist"
  by (simp add: load_archetype.simps str_simps module_globals_def)

lemma name_simps:
  "name Warrior = Some ''Warrior''" "name Scout = Some ''Scout''"
  "name Arcanist = Some ''Arcanist''" "name Archetype = None"
  by (simp_all add: Warrior_def Scout_def Arcanist_def Archetype_def set_base_def set_mod_def)

lemma health_roll_simps:
  "health_roll Warrior = Some ''1d6+1''" "health_roll Scout = Some ''1d6''"
  "health_roll Arcanist = Some ''1d6-1''" "health_roll Archetype = None"
  by (simp_all add: Warrior_def Scout_def Arcanist_def Archetype_def set_base_def set_mod_def)

lemma load_dual:
  "load_archetype rm ''Warrior-Scout'' = make_dual rm Warrior Scout"
  "load_archetype rm ''Scout-Warrior'' = make_dual rm Scout Warrior"
  "load_archetype rm ''Warrior-Arcanist'' = make_dual rm Warrior Arcanist"
  "load_archetype rm ''Arcanist-Warrior'' = make_dual rm Arcanist Warrior"
  "load_archetype rm ''Scout-Arcanist'' = make_dual rm Scout Arcanist"
  "load_archetype rm ''Arcanist-Scout'' = make_dual rm Arcanist Scout"
  by (subst load_archetype.simps,
      simp add: str_simps split_hyphen_def load_Warrior load_Scout load_Arcanist)+

lemma names_simps:
  "map_of names {Some ''Warrior'', Some ''Scout''} = Some ''Warrior-Scout''"
  "map_of names {Some ''Scout'', Some ''Warrior''} = Some ''Warrior-Scout''"
  "map_of names {Some ''Warrior'', Some ''Arcanist''} = Some ''Warrior-Arcanist''"
  "map_of names {Some ''Arcanist'', Some ''Warrior''} = Some ''Warrior-Arcanist''"
  "map_of names {Some ''Scout'', Some ''Arcanist''} = Some ''Arcanist-Scout''"
  "map_of names {Some ''Arcanist'', Some ''Scout''} = Some ''Arcanist-Scout''"
  by (simp_all add: names_def doubleton_eq_iff)

lemma keys_simps:
  "map fst (traits Warrior) = map fst (traits Archetype)"
  "map fst (traits Scout) = map fst (traits Archetype)"
  "map fst (traits Arcanist) = map fst (traits Archetype)"
  by (simp_all add: Warrior_def Scout_def Arcanist_def Archetype_def set_base_def set_mod_def)

lemma Archetype_keys: "set (map fst (traits Archetype)) = set ALL_TRAITS"
  by code_simp

lemma has_key: "k \<in> set (map fst xs) \<Longrightarrow> \<exists>t. map_of xs k = Some t"
  by (cases "map_of xs k") (auto simp: map_of_eq_None_iff)

section \<open>Merging two archetypes\<close>

lemma merge_trait_commute: "merge_trait a b key t = merge_trait b a key t"
  by (simp add: merge_trait_def Let_def add.commute)

lemma map_of_merged:
  "map_of (map (\<lambda>(key, trait). (key, f key trait)) xs) k = map_option (f k) (map_of xs k)"
  by (induction xs) auto

lemma map_fst_merged: "map fst (map (\<lambda>(key, trait). (key, f key trait)) xs) = map fst xs"
  by (induction xs) auto

lemma make_dual_ok:
  assumes "name a = Some x" "name b = Some y" "CHR ''-'' \<notin> set x" "CHR ''-'' \<notin> set y"
    "x \<noteq> y" "map_of names {Some x, Some y} = Some n"
  shows "make_dual rm a b =
    Inr \<lparr>name = Some n,
         traits = map (\<lambda>(key, trait). (key, merge_trait a b key trait)) (traits Archetype),
         health_roll = min_by rm (health_roll a) (health_roll b)\<rparr>"
  using assms by (simp add: make_dual_def Archetype_def)

lemma merged_values:
  assumes "map fst (traits a) = map fst (traits Archetype)"
    and "map fst (traits b) = map fst (traits Archetype)"
    and "key \<in> set ALL_TRAITS"
  shows "\<exists>ta tb td. map_of (traits a) key = Some ta \<and> map_of (traits b) key = Some tb \<and>
      map_of (map (\<lambda>(key, trait). (key, merge_trait a b key trait)) (traits Archetype)) key =
        Some td \<and>
      base td = (base ta + base tb) div 2 \<and> tmod td = (tmod ta + tmod tb) div 2"
proof -
  have k: "key \<in> set (map fst (traits Archetype))"
    using assms(3) by (simp only: Archetype_keys)
  obtain ta where ta: "map_of (traits a) key = Some ta"
    using has_key [of key "traits a"] k assms(1) by auto
  obtain tb where tb: "map_of (traits b) key = Some tb"
    using has_key [of key "traits b"] k assms(2) by auto
  obtain t where t: "map_of (traits Archetype) key = Some t"
    using has_key [OF k] by auto
  show ?thesis
    using ta tb t by (simp add: map_of_merged merge_trait_def dict_get_def Let_def)
qed

text \<open>
  Claim C1. For each of the three pairs of base archetypes, loading the hyphenated name
  in either order succeeds; the two results have the same trait table, which has exactly
  the codes of \<^verbatim>\<open>ALL_TRAITS\<close>, and the same canonical name of the pair; and every
  entry of the table has as base the floor of half the sum of the bases of the two freshly
  loaded single archetypes, and as modifier the floor of half the sum of their modifiers.
\<close>

theorem dual_archetypes:
  assumes "(A, B, canonical) \<in> set [(''Warrior'', ''Scout'', ''Warrior-Scout''),
                                    (''Warrior'', ''Arcanist'', ''Warrior-Arcanist''),
                                    (''Scout'', ''Arcanist'', ''Arcanist-Scout'')]"
  shows "\<exists>a b d d'.
     load_archetype roll_max A = Inr a \<and> load_archetype roll_max B = Inr b \<and>
     load_archetype roll_max (A @ ''-'' @ B) = Inr d \<and>
     load_archetype roll_max (B @ ''-'' @ A) = Inr d' \<and>
     name d = Some canonical \<and> name d' = Some canonical \<and> traits d = traits d' \<and>
     set (map fst (traits d)) = set ALL_TRAITS \<and>
     (\<forall>key \<in> set ALL_TRAITS. \<exists>ta tb td.
        map_of (traits a) key = Some ta \<and> map_of (traits b) key = Some tb \<and>
        map_of (traits d) key = Some td \<and>
        base td = (base ta + base tb) div 2 \<and> tmod td = (tmod ta + tmod tb) div 2)"
proof -
  have pair: "\<exists>d d'. make_dual roll_max a b = Inr d \<and> make_dual roll_max b a = Inr d' \<and>
     name d = Some n \<and> name d' = Some n \<and> traits d = traits d' \<and>
     set (map fst (traits d)) = set ALL_TRAITS \<and>
     (\<forall>key \<in> set ALL_TRAITS. \<exists>ta tb td.
        map_of (traits a) key = Some ta \<and> map_of (traits b) key = Some tb \<and>
        map_of (traits d) key = Some td \<and>
        base td = (base ta + base tb) div 2 \<and> tmod td = (tmod ta + tmod tb) div 2)"
    if "name a = Some x" "name b = Some y" "CHR ''-'' \<notin> set x" "CHR ''-'' \<notin> set y" "x \<noteq> y"
      "map_of names {Some x, Some y} = Some n"
      "map fst (traits a) = map fst (traits Archetype)"
      "map fst (traits b) = map fst (traits Archetype)"
    for a b x y n
  proof -
    have ab: "make_dual roll_max a b =
      Inr \<lparr>name = Some n,
         traits = map (\<lambda>(key, trait). (key, merge_trait a b key trait)) (traits Archetype),
         health_roll = min_by roll_max (health_roll a) (health_roll b)\<rparr>"
      using that by (intro make_dual_ok) auto
    have "map_of names {Some y, Some x} = Some n"
      using that(6) by (simp add: insert_commute)
    then have ba: "make_dual roll_max b a =
      Inr \<lparr>name = Some n,
         traits = map (\<lambda>(key, trait). (key, merge_trait b a key trait)) (traits Archetype),
         health_roll = min_by roll_max (health_roll b) (health_roll a)\<rparr>"
      using that by (intro make_dual_ok) auto
    have same: "map (\<lambda>(key, trait). (key, merge_trait a b key trait)) (traits Archetype) =
        map (\<lambda>(key, trait). (key, merge_trait b a key trait)) (traits Archetype)"
      by (simp add: merge_trait_commute [of a b])
    have keys: "set (map fst (map (\<lambda>(key, trait). (key, merge_trait a b key trait)) (traits Archetype))) =
        set ALL_TRAITS"
      by (simp only: map_fst_merged Archetype_keys)
    show ?thesis
      unfolding ab ba
      by (simp only: sum.inject ex_simps simp_thms archetype.simps same [symmetric] keys)
        (use merged_values [OF that(7) that(8)] in blast)
  qed
  from assms consider
      "A = ''Warrior''" "B = ''Scout''" "canonical = ''Warrior-Scout''"
    | "A = ''Warrior''" "B = ''Arcanist''" "canonical = ''Warrior-Arcanist''"
    | "A = ''Scout''" "B = ''Arcanist''" "canonical = ''Arcanist-Scout''"
    by auto
  then show ?thesis
  proof cases
    case 1
    show ?thesis
      using pair [of Warrior "''Warrior''" Scout "''Scout''" canonical]
      by (simp add: 1 load_Warrior load_Scout load_dual name_simps names_simps keys_simps)
  next
    case 2
    show ?thesis
      using pair [of Warrior "''Warrior''" Arcanist "''Arcanist''" canonical]
      by (simp add: 2 load_Warrior load_Arcanist load_dual name_simps names_simps keys_simps)
  next
    case 3
    show ?thesis
      using pair [of Scout "''Scout''" Arcanist "''Arcanist''" canonical]
      by (simp add: 3 load_Scout load_Arcanist load_dual name_simps names_simps keys_simps)
  qed
qed


theorem dual_archetypes_witness:
  "(''Warrior'', ''Scout'', ''Warrior-Scout'') \<in>
      set [(''Warrior'', ''Scout'', ''Warrior-Scout''),
           (''Warrior'', ''Arcanist'', ''Warrior-Arcanist''),
           (''Scout'', ''Arcanist'', ''Arcanist-Scout'')] \<and>
   (\<exists>d d'. load_archetype sample_roll_max ''Warrior-Scout'' = Inr d \<and>
       load_archetype sample_roll_max ''Scout-Warrior'' = Inr d' \<and>
       name d = Some ''Warrior-Scout'' \<and> name d' = Some ''Warrior-Scout'' \<and>
       traits d = traits d' \<and>
       map_option base (map_of (traits d) ''STR'') = Some 5 \<and>
       map_option tmod (map_of (traits d) ''STR'') = Some 0)"
proof -
  have h: "(''Warrior'', ''Scout'', ''Warrior-Scout'') \<in>
      set [(''Warrior'', ''Scout'', ''Warrior-Scout''),
           (''Warrior'', ''Arcanist'', ''Warrior-Arcanist''),
           (''Scout'', ''Arcanist'', ''Arcanist-Scout'')]"
    by simp
  have k: "''STR'' \<in> set ALL_TRAITS"
    by (simp add: ALL_TRAITS_def PRIMARY_TRAITS_def)
  have w: "map_of (traits Warrior) ''STR'' = Some t \<Longrightarrow> base t = 6 \<and> tmod t = 0" for t
    by (auto simp: Warrior_def Archetype_def set_base_def entry_def)
  have s: "map_of (traits Scout) ''STR'' = Some t \<Longrightarrow> base t = 4 \<and> tmod t = 0" for t
    by (auto simp: Scout_def Archetype_def set_base_def entry_def)
  from dual_archetypes [OF h, of sample_roll_max] obtain a b d d' where
    *: "load_archetype sample_roll_max ''Warrior'' = Inr a"
       "load_archetype sample_roll_max ''Scout'' = Inr b"
       "load_archetype sample_roll_max (''Warrior'' @ ''-'' @ ''Scout'') = Inr d"
       "load_archetype sample_roll_max (''Scout'' @ ''-'' @ ''Warrior'') = Inr d'"
       "name d = Some ''Warrior-Scout''" "name d' = Some ''Warrior-Scout''"
       "traits d = traits d'"
       "\<forall>key \<in> set ALL_TRAITS. \<exists>ta tb td.
          map_of (traits a) key = Some ta \<and> map_of (traits b) key = Some tb \<and>
          map_of (traits d) key = Some td \<and>
          base td = (base ta + base tb) div 2 \<and> tmod td = (tmod ta + tmod tb) div 2"
    by blast
  from *(1,2) have ab: "a = Warrior" "b = Scout"
    by (simp_all add: load_Warrior load_Scout)
  from *(8) k obtain ta tb td where
    **: "map_of (traits a) ''STR'' = Some ta" "map_of (traits b) ''STR'' = Some tb"
        "map_of (traits d) ''STR'' = Some td"
        "base td = (base ta + base tb) div 2" "tmod td = (tmod ta + tmod tb) div 2"
    by blast
  have "base td = 5" "tmod td = 0"
    using ** w [of ta] s [of tb] by (simp_all add: ab)
  with * ** h show ?thesis by simp
qed

section \<open>The three archetype classes\<close>

text \<open>
  Claim C8. The freshly loaded Warrior, Scout and Arcanist have the health rolls and the
  bases and modifiers of the table of overrides; the base class has primary bases 1,
  \<^verbatim>\<open>MAG\<close> base 0, \<^verbatim>\<open>MV\<close> base 6, every modifier 0 and the maximum 0 for \<^verbatim>\<open>BM\<close> and
  \<^verbatim>\<open>WM\<close>; and apart from bases and modifiers the three tables are the table of the base
  class.
\<close>

theorem fresh_archetypes:
  "\<exists>w s a.
     load_archetype roll_max ''Warrior'' = Inr w \<and>
     load_archetype roll_max ''Scout'' = Inr s \<and>
     load_archetype roll_max ''Arcanist'' = Inr a \<and>
     health_roll w = Some ''1d6+1'' \<and> health_roll s = Some ''1d6'' \<and>
     health_roll a = Some ''1d6-1'' \<and>
     map (\<lambda>(k, t). (k, base t, tmod t)) (traits w) =
       [(''STR'', 6, 0), (''PER'', 1, 0), (''INT'', 1, 0), (''DEX'', 4, 0), (''CHA'', 4, 0),
        (''VIT'', 6, 0), (''MAG'', 0, 0), (''BM'', 0, 0), (''WM'', 0, 0), (''HP'', 0, 0),
        (''SP'', 0, 0), (''FORT'', 0, 0), (''REFL'', 0, 0), (''WILL'', 0, 0),
        (''ATKM'', 0, 0), (''ATKR'', 0, 0), (''ATKU'', 0, 0), (''DEF'', 0, 0),
        (''ACT'', 0, 0), (''PP'', 2, 0), (''ENC'', 0, 0), (''MV'', 5, 0), (''LV'', 0, 0),
        (''XP'', 0, 0)] \<and>
     map (\<lambda>(k, t). (k, base t, tmod t)) (traits s) =
       [(''STR'', 4, 0), (''PER'', 6, 0), (''INT'', 6, 0), (''DEX'', 4, 0), (''CHA'', 1, 0),
        (''VIT'', 1, 0), (''MAG'', 0, 0), (''BM'', 0, 0), (''WM'', 0, 0), (''HP'', 0, 0),
        (''SP'', 0, 0), (''FORT'', 0, 0), (''REFL'', 0, 0), (''WILL'', 0, 0),
        (''ATKM'', 0, 0), (''ATKR'', 0, 0), (''ATKU'', 0, 0), (''DEF'', 0, 0),
        (''ACT'', 0, 0), (''PP'', 0, 0), (''ENC'', 0, 0), (''MV'', 6, 0), (''LV'', 0, 0),
        (''XP'', 0, 0)] \<and>
     map (\<lambda>(k, t). (k, base t, tmod t)) (traits a) =
       [(''STR'', 1, 0), (''PER'', 4, 0), (''INT'', 6, 0), (''DEX'', 1, 0), (''CHA'', 4, 0),
        (''VIT'', 1, 0), (''MAG'', 6, 0), (''BM'', 0, 0), (''WM'', 0, 0), (''HP'', 0, 0),
        (''SP'', 0, - 2), (''FORT'', 0, 0), (''REFL'', 0, 0), (''WILL'', 0, 0),
        (''ATKM'', 0, 0), (''ATKR'', 0, 0), (''ATKU'', 0, 0), (''DEF'', 0, 0),
        (''ACT'', 0, 0), (''PP'', 0, 0), (''ENC'', 0, 0), (''MV'', 7, 0), (''LV'', 0, 0),
        (''XP'', 0, 0)] \<and>
     map (\<lambda>(k, t). (k, base t, tmod t, tmax t)) (traits Archetype) =
       [(''STR'', 1, 0, None), (''PER'', 1, 0, None), (''INT'', 1, 0, None),
        (''DEX'', 1, 0, None), (''CHA'', 1, 0, None), (''VIT'', 1, 0, None),
        (''MAG'', 0, 0, None), (''BM'', 0, 0, Some 0), (''WM'', 0, 0, Some 0),
        (''HP'', 0, 0, None), (''SP'', 0, 0, None), (''FORT'', 0, 0, None),
        (''REFL'', 0, 0, None), (''WILL'', 0, 0, None), (''ATKM'', 0, 0, None),
        (''ATKR'', 0, 0, None), (''ATKU'', 0, 0, None), (''DEF'', 0, 0, None),
        (''ACT'', 0, 0, None), (''PP'', 0, 0, None), (''ENC'', 0, 0, None),
        (''MV'', 6, 0, None), (''LV'', 0, 0, None), (''XP'', 0, 0, None)] \<and>
     map (\<lambda>(k, t). (k, t\<lparr>base := 0, tmod := 0\<rparr>)) (traits w) =
       map (\<lambda>(k, t). (k, t\<lparr>base := 0, tmod := 0\<rparr>)) (traits Archetype) \<and>
     map (\<lambda>(k, t). (k, t\<lparr>base := 0, tmod := 0\<rparr>)) (traits s) =
       map (\<lambda>(k, t). (k, t\<lparr>base := 0, tmod := 0\<rparr>)) (traits Archetype) \<and>
     map (\<lambda>(k, t). (k, t\<lparr>base := 0, tmod := 0\<rparr>)) (traits a) =
       map (\<lambda>(k, t). (k, t\<lparr>base := 0, tmod := 0\<rparr>)) (traits Archetype)"
proof -
  have w: "map (\<lambda>(k, t). (k, base t, tmod t)) (traits Warrior) =
       [(''STR'', 6, 0), (''PER'', 1, 0), (''INT'', 1, 0), (''DEX'', 4, 0), (''CHA'', 4, 0),
        (''VIT'', 6, 0), (''MAG'', 0, 0), (''BM'', 0, 0), (''WM'', 0, 0), (''HP'', 0, 0),
        (''SP'', 0, 0), (''FORT'', 0, 0), (''REFL'', 0, 0), (''WILL'', 0, 0),
        (''ATKM'', 0, 0), (''ATKR'', 0, 0), (''ATKU'', 0, 0), (''DEF'', 0, 0),
        (''ACT'', 0, 0), (''PP'', 2, 0), (''ENC'', 0, 0), (''MV'', 5, 0), (''LV'', 0, 0),
        (''XP'', 0, 0)]"
    by (simp add: Warrior_def Archetype_def set_base_def entry_def)
  have s: "map (\<lambda>(k, t). (k, base t, tmod t)) (traits Scout) =
       [(''STR'', 4, 0), (''PER'', 6, 0), (''INT'', 6, 0), (''DEX'', 4, 0), (''CHA'', 1, 0),
        (''VIT'', 1, 0), (''MAG'', 0, 0), (''BM'', 0, 0), (''WM'', 0, 0), (''HP'', 0, 0),
        (''SP'', 0, 0), (''FORT'', 0, 0), (''REFL'', 0, 0), (''WILL'', 0, 0),
        (''ATKM'', 0, 0), (''ATKR'', 0, 0), (''ATKU'', 0, 0), (''DEF'', 0, 0),
        (''ACT'', 0, 0), (''PP'', 0, 0), (''ENC'', 0, 0), (''MV'', 6, 0), (''LV'', 0, 0),
        (''XP'', 0, 0)]"
    by (simp add: Scout_def Archetype_def set_base_def entry_def)
  have a: "map (\<lambda>(k, t). (k, base t, tmod t)) (traits Arcanist) =
       [(''STR'', 1, 0), (''PER'', 4, 0), (''INT'', 6, 0), (''DEX'', 1, 0), (''CHA'', 4, 0),
        (''VIT'', 1, 0), (''MAG'', 6, 0), (''BM'', 0, 0), (''WM'', 0, 0), (''HP'', 0, 0),
        (''SP'', 0, - 2), (''FORT'', 0, 0), (''REFL'', 0, 0), (''WILL'', 0, 0),
        (''ATKM'', 0, 0), (''ATKR'', 0, 0), (''ATKU'', 0, 0), (''DEF'', 0, 0),
        (''ACT'', 0, 0), (''PP'', 0, 0), (''ENC'', 0, 0), (''MV'', 7, 0), (''LV'', 0, 0),
        (''XP'', 0, 0)]"
    by (simp add: Arcanist_def Archetype_def set_base_def set_mod_def entry_def)
  have d: "map (\<lambda>(k, t). (k, base t, tmod t, tmax t)) (traits Archetype) =
       [(''STR'', 1, 0, None), (''PER'', 1, 0, None), (''INT'', 1, 0, None),
        (''DEX'', 1, 0, None), (''CHA'', 1, 0, None), (''VIT'', 1, 0, None),
        (''MAG'', 0, 0, None), (''BM'', 0, 0, Some 0), (''WM'', 0, 0, Some 0),
        (''HP'', 0, 0, None), (''SP'', 0, 0, None), (''FORT'', 0, 0, None),
        (''REFL'', 0, 0, None), (''WILL'', 0, 0, None), (''ATKM'', 0, 0, None),
        (''ATKR'', 0, 0, None), (''ATKU'', 0, 0, None), (''DEF'', 0, 0, None),
        (''ACT'', 0, 0, None), (''PP'', 0, 0, None), (''ENC'', 0, 0, None),
        (''MV'', 6, 0, None), (''LV'', 0, 0, None), (''XP'', 0, 0, None)]"
    by (simp add: Archetype_def entry_def)
  have w0: "map (\<lambda>(k, t). (k, t\<lparr>base := 0, tmod := 0\<rparr>)) (traits Warrior) =
       map (\<lambda>(k, t). (k, t\<lparr>base := 0, tmod := 0\<rparr>)) (traits Archetype)"
    by (simp add: Warrior_def Archetype_def set_base_def entry_def)
  have s0: "map (\<lambda>(k, t). (k, t\<lparr>base := 0, tmod := 0\<rparr>)) (traits Scout) =
       map (\<lambda>(k, t). (k, t\<lparr>base := 0, tmod := 0\<rparr>)) (traits Archetype)"
    by (simp add: Scout_def Archetype_def set_base_def entry_def)
  have a0: "map (\<lambda>(k, t). (k, t\<lparr>base := 0, tmod := 0\<rparr>)) (traits Arcanist) =
       map (\<lambda>(k, t). (k, t\<lparr>base := 0, tmod := 0\<rparr>)) (traits Archetype)"
    by (simp add: Arcanist_def Archetype_def set_base_def set_mod_def entry_def)
  show ?thesis
    unfolding load_Warrior load_Scout load_Arcanist
    by (simp only: sum.inject ex_simps simp_thms health_roll_simps w s a d w0 s0 a0)
qed

section \<open>Allocation and validation\<close>

lemmas primary_sum =
  PRIMARY_TRAITS_def TOTAL_PRIMARY_POINTS_def

lemma test_store_values:
  "base (test_store ''STR'') = 9" "base (test_store ''PER'') = 2" "base (test_store ''INT'') = 1"
  "base (test_store ''DEX'') = 5" "base (test_store ''CHA'') = 4" "base (test_store ''VIT'') = 9"
  "base (test_store ''MAG'') = 0"
  "actual (test_store ''STR'') = 9" "actual (test_store ''PER'') = 2"
  "actual (test_store ''INT'') = 1" "actual (test_store ''DEX'') = 5"
  "actual (test_store ''CHA'') = 4" "actual (test_store ''VIT'') = 9"
  by (simp_all add: test_store_def add_base_def trait_factory_def dict_get_def actual_def
      Warrior_def Archetype_def set_base_def entry_def)

lemma lopsided_store_values:
  "base (lopsided_store ''STR'') = 11" "base (lopsided_store ''PER'') = 1"
  "base (lopsided_store ''INT'') = 1" "base (lopsided_store ''DEX'') = 1"
  "base (lopsided_store ''CHA'') = 1" "base (lopsided_store ''VIT'') = 1"
  "base (lopsided_store ''MAG'') = 14"
  by (simp_all add: lopsided_store_def add_base_def trait_factory_def dict_get_def
      Archetype_def entry_def)

lemma overspent_store_values:
  "base (overspent_store ''STR'') = 12" "base (overspent_store ''PER'') = 2"
  "base (overspent_store ''INT'') = 1" "base (overspent_store ''DEX'') = 5"
  "base (overspent_store ''CHA'') = 4" "base (overspent_store ''VIT'') = 9"
  "base (overspent_store ''MAG'') = 0"
  by (simp_all add: overspent_store_def add_base_def test_store_values)

lemma sum_bases_eq:
  "sum_bases codes acc ts = (acc + sum_list (map (\<lambda>t. base (ts t)) codes), ts)"
  by (induction codes arbitrary: acc) (simp_all add: read_base_def add.assoc)

text \<open>
  Claim C9. For every trait store, \<^verbatim>\<open>get_remaining_allocation\<close> returns 30 minus the sum
  of the bases of the seven primary traits, which is negative when more than 30 points
  are allocated, and the store after the call is the store before it.
\<close>

theorem remaining_allocation:
  "fst (get_remaining_allocation ts) =
     30 - (base (ts ''STR'') + base (ts ''PER'') + base (ts ''INT'') + base (ts ''DEX'') +
           base (ts ''CHA'') + base (ts ''VIT'') + base (ts ''MAG'')) \<and>
   snd (get_remaining_allocation ts) = ts \<and>
   (30 < base (ts ''STR'') + base (ts ''PER'') + base (ts ''INT'') + base (ts ''DEX'') +
           base (ts ''CHA'') + base (ts ''VIT'') + base (ts ''MAG'')
      \<longrightarrow> fst (get_remaining_allocation ts) < 0)"
  by (simp add: get_remaining_allocation_def sum_bases_eq primary_sum)

theorem remaining_allocation_witness:
  "30 < base (overspent_store ''STR'') + base (overspent_store ''PER'') +
        base (overspent_store ''INT'') + base (overspent_store ''DEX'') +
        base (overspent_store ''CHA'') + base (overspent_store ''VIT'') +
        base (overspent_store ''MAG'') \<and>
   get_remaining_allocation overspent_store = (- 3, overspent_store) \<and>
   get_remaining_allocation test_store = (0, test_store)"
  using remaining_allocation [of overspent_store] remaining_allocation [of test_store]
  by (simp add: overspent_store_values test_store_values prod_eq_iff)

text \<open>
  Claim C4. With \<open>n\<close> the sum of the bases of the seven primary traits,
  \<^verbatim>\<open>validate_primary_traits\<close> fails with the too-many message when \<open>n\<close> exceeds 30,
  fails with the not-enough message when \<open>n\<close> is below 30, and succeeds with no message
  exactly when \<open>n\<close> is 30, whatever the single bases are.
\<close>

theorem validate_total:
  assumes "n = base (ts ''STR'') + base (ts ''PER'') + base (ts ''INT'') + base (ts ''DEX'') +
           base (ts ''CHA'') + base (ts ''VIT'') + base (ts ''MAG'')"
  shows "(30 < n \<longrightarrow>
            validate_primary_traits ts = (False, Some ''Too many trait points allocated.'')) \<and>
         (n < 30 \<longrightarrow>
            validate_primary_traits ts = (False, Some ''Not enough trait points allocated.'')) \<and>
         (n = 30 \<longrightarrow> validate_primary_traits ts = (True, None)) \<and>
         (fst (validate_primary_traits ts) \<longleftrightarrow> n = 30)"
  using assms by (simp add: validate_primary_traits_def primary_sum Let_def)

theorem validate_total_witness:
  "validate_primary_traits test_store = (True, None) \<and>
   base (lopsided_store ''STR'') = 11 \<and> base (lopsided_store ''MAG'') = 14 \<and>
   validate_primary_traits lopsided_store = (True, None) \<and>
   validate_primary_traits overspent_store =
     (False, Some ''Too many trait points allocated.'') \<and>
   validate_primary_traits (trait_factory (traits Archetype)) =
     (False, Some ''Not enough trait points allocated.'')"
proof -
  have a: "base (trait_factory (traits Archetype) ''STR'') = 1"
    "base (trait_factory (traits Archetype) ''PER'') = 1"
    "base (trait_factory (traits Archetype) ''INT'') = 1"
    "base (trait_factory (traits Archetype) ''DEX'') = 1"
    "base (trait_factory (traits Archetype) ''CHA'') = 1"
    "base (trait_factory (traits Archetype) ''VIT'') = 1"
    "base (trait_factory (traits Archetype) ''MAG'') = 0"
    by (simp_all add: trait_factory_def dict_get_def Archetype_def entry_def)
  show ?thesis
    using validate_total [of 30 test_store] validate_total [of 33 overspent_store]
      validate_total [of 6 "trait_factory (traits Archetype)"]
      validate_total [of 30 lopsided_store]
    by (simp add: test_store_values overspent_store_values lopsided_store_values a)
qed

section \<open>Secondary traits\<close>

lemma actual_factors [simp]:
  "actual (t\<lparr>carry_factor := c\<rparr>) = actual t"
  "actual (t\<lparr>lift_factor := c\<rparr>) = actual t"
  "actual (t\<lparr>push_factor := c\<rparr>) = actual t"
  by (simp_all add: actual_def split: option.splits)

lemma assign_apply:
  "assign_base dst src ts k = (if k = dst then (ts dst)\<lparr>base := actual (ts src)\<rparr> else ts k)"
  "assign_mana_max dst ts k =
     (if k = dst then (ts dst)\<lparr>tmax := Some (if base (ts ''MAG'') > 0 then 10 else 0)\<rparr>
      else ts k)"
  "assign_carry_factor v ts k =
     (if k = ''STR'' then (ts ''STR'')\<lparr>carry_factor := Some v\<rparr> else ts k)"
  "assign_lift_factor v ts k =
     (if k = ''STR'' then (ts ''STR'')\<lparr>lift_factor := Some v\<rparr> else ts k)"
  "assign_push_factor v ts k =
     (if k = ''STR'' then (ts ''STR'')\<lparr>push_factor := Some v\<rparr> else ts k)"
  "assign_enc_max ts k =
     (if k = ''ENC''
      then (ts ''ENC'')\<lparr>tmax :=
             map_option (\<lambda>f. f * actual (ts ''STR'')) (lift_factor (ts ''STR''))\<rparr>
      else ts k)"
  by (simp_all add: assign_base_def assign_mana_max_def assign_carry_factor_def
      assign_lift_factor_def assign_push_factor_def assign_enc_max_def)

lemma calc_apply:
  "calculate_secondary_traits ts k =
    (if k = ''HP'' \<or> k = ''SP'' \<or> k = ''FORT'' then (ts k)\<lparr>base := actual (ts ''VIT'')\<rparr>
     else if k = ''REFL'' \<or> k = ''ATKU'' \<or> k = ''DEF'' then (ts k)\<lparr>base := actual (ts ''DEX'')\<rparr>
     else if k = ''WILL'' then (ts k)\<lparr>base := actual (ts ''INT'')\<rparr>
     else if k = ''ATKM'' then (ts k)\<lparr>base := actual (ts ''STR'')\<rparr>
     else if k = ''ATKR'' then (ts k)\<lparr>base := actual (ts ''PER'')\<rparr>
     else if k = ''BM'' \<or> k = ''WM''
       then (ts k)\<lparr>tmax := Some (if base (ts ''MAG'') > 0 then 10 else 0)\<rparr>
     else if k = ''STR''
       then (ts k)\<lparr>carry_factor := Some 10, lift_factor := Some 20, push_factor := Some 40\<rparr>
     else if k = ''ENC'' then (ts k)\<lparr>tmax := Some (20 * actual (ts ''STR''))\<rparr>
     else ts k)"
  by (simp add: calculate_secondary_traits_def Let_def assign_apply)

text \<open>
  Claim C2. After \<^verbatim>\<open>calculate_secondary_traits\<close> the bases of \<^verbatim>\<open>HP\<close>, \<^verbatim>\<open>SP\<close> and
  \<^verbatim>\<open>FORT\<close> are the actual value of \<^verbatim>\<open>VIT\<close>, those of \<^verbatim>\<open>REFL\<close>, \<^verbatim>\<open>ATKU\<close> and
  \<^verbatim>\<open>DEF\<close> the actual value of \<^verbatim>\<open>DEX\<close>, that of \<^verbatim>\<open>WILL\<close> the actual value of
  \<^verbatim>\<open>INT\<close>, that of \<^verbatim>\<open>ATKM\<close> the actual value of \<^verbatim>\<open>STR\<close>, that of \<^verbatim>\<open>ATKR\<close> the
  actual value of \<^verbatim>\<open>PER\<close>; the maxima of \<^verbatim>\<open>BM\<close> and \<^verbatim>\<open>WM\<close> are 10 if the base of
  \<^verbatim>\<open>MAG\<close> is positive and 0 otherwise; the maximum of \<^verbatim>\<open>ENC\<close> is 20 times the actual
  value of \<^verbatim>\<open>STR\<close>. For actual values 9, 2, 1, 5, 4, 9 of \<^verbatim>\<open>STR\<close>, \<^verbatim>\<open>PER\<close>, \<^verbatim>\<open>INT\<close>,
  \<^verbatim>\<open>DEX\<close>, \<^verbatim>\<open>CHA\<close>, \<^verbatim>\<open>VIT\<close> and base 0 of \<^verbatim>\<open>MAG\<close> this gives 9, 9, 9, 5, 1, 9, 2,
  5, 5, 0, 0 and 180.
\<close>

theorem secondary_trait_values:
  "let ts' = calculate_secondary_traits ts in
     (base (ts' ''HP'') = actual (ts ''VIT'') \<and> base (ts' ''SP'') = actual (ts ''VIT'') \<and>
      base (ts' ''FORT'') = actual (ts ''VIT'') \<and> base (ts' ''REFL'') = actual (ts ''DEX'') \<and>
      base (ts' ''ATKU'') = actual (ts ''DEX'') \<and> base (ts' ''DEF'') = actual (ts ''DEX'') \<and>
      base (ts' ''WILL'') = actual (ts ''INT'') \<and> base (ts' ''ATKM'') = actual (ts ''STR'') \<and>
      base (ts' ''ATKR'') = actual (ts ''PER'') \<and>
      tmax (ts' ''BM'') = Some (if base (ts ''MAG'') > 0 then 10 else 0) \<and>
      tmax (ts' ''WM'') = Some (if base (ts ''MAG'') > 0 then 10 else 0) \<and>
      tmax (ts' ''ENC'') = Some (20 * actual (ts ''STR''))) \<and>
     (actual (ts ''STR'') = 9 \<and> actual (ts ''PER'') = 2 \<and> actual (ts ''INT'') = 1 \<and>
      actual (ts ''DEX'') = 5 \<and> actual (ts ''CHA'') = 4 \<and> actual (ts ''VIT'') = 9 \<and>
      base (ts ''MAG'') = 0 \<longrightarrow>
      base (ts' ''HP'') = 9 \<and> base (ts' ''SP'') = 9 \<and> base (ts' ''FORT'') = 9 \<and>
      base (ts' ''REFL'') = 5 \<and> base (ts' ''WILL'') = 1 \<and> base (ts' ''ATKM'') = 9 \<and>
      base (ts' ''ATKR'') = 2 \<and> base (ts' ''ATKU'') = 5 \<and> base (ts' ''DEF'') = 5 \<and>
      tmax (ts' ''BM'') = Some 0 \<and> tmax (ts' ''WM'') = Some 0 \<and>
      tmax (ts' ''ENC'') = Some 180)"
  by (simp add: calc_apply Let_def)

theorem secondary_trait_values_witness:
  "actual (test_store ''STR'') = 9 \<and> actual (test_store ''PER'') = 2 \<and>
   actual (test_store ''INT'') = 1 \<and> actual (test_store ''DEX'') = 5 \<and>
   actual (test_store ''CHA'') = 4 \<and> actual (test_store ''VIT'') = 9 \<and>
   base (test_store ''MAG'') = 0 \<and>
   base (calculate_secondary_traits test_store ''HP'') = 9 \<and>
   base (calculate_secondary_traits test_store ''SP'') = 9 \<and>
   base (calculate_secondary_traits test_store ''FORT'') = 9 \<and>
   base (calculate_secondary_traits test_store ''REFL'') = 5 \<and>
   base (calculate_secondary_traits test_store ''WILL'') = 1 \<and>
   base (calculate_secondary_traits test_store ''ATKM'') = 9 \<and>
   base (calculate_secondary_traits test_store ''ATKR'') = 2 \<and>
   base (calculate_secondary_traits test_store ''ATKU'') = 5 \<and>
   base (calculate_secondary_traits test_store ''DEF'') = 5 \<and>
   tmax (calculate_secondary_traits test_store ''BM'') = Some 0 \<and>
   tmax (calculate_secondary_traits test_store ''WM'') = Some 0 \<and>
   tmax (calculate_secondary_traits test_store ''ENC'') = Some 180"
  using secondary_trait_values [of test_store]
  by (simp add: Let_def test_store_values)

text \<open>
  Claim C7. \<^verbatim>\<open>calculate_secondary_traits\<close> is idempotent: run twice in succession it
  leaves the store that one run leaves.
\<close>

theorem calc_idempotent:
  "calculate_secondary_traits (calculate_secondary_traits ts) = calculate_secondary_traits ts"
  by (rule ext) (simp add: calc_apply)

text \<open>
  Claim C10. \<^verbatim>\<open>calculate_secondary_traits\<close> leaves base and modifier of every primary
  trait as they were, leaves \<^verbatim>\<open>PP\<close>, \<^verbatim>\<open>ACT\<close>, \<^verbatim>\<open>LV\<close>, \<^verbatim>\<open>XP\<close> and \<^verbatim>\<open>MV\<close> (and
  every code it does not name) unchanged, changes nothing but the base of \<^verbatim>\<open>HP\<close>,
  \<^verbatim>\<open>SP\<close>, \<^verbatim>\<open>FORT\<close>, \<^verbatim>\<open>REFL\<close>, \<^verbatim>\<open>WILL\<close>, \<^verbatim>\<open>ATKM\<close>, \<^verbatim>\<open>ATKR\<close>, \<^verbatim>\<open>ATKU\<close> and
  \<^verbatim>\<open>DEF\<close>, nothing but the maximum of \<^verbatim>\<open>BM\<close>, \<^verbatim>\<open>WM\<close> and \<^verbatim>\<open>ENC\<close>, and nothing but
  the three factors of \<^verbatim>\<open>STR\<close>.
\<close>

theorem secondary_traits_frame:
  "let ts' = calculate_secondary_traits ts in
     (\<forall>code \<in> set PRIMARY_TRAITS.
        base (ts' code) = base (ts code) \<and> tmod (ts' code) = tmod (ts code)) \<and>
     (\<forall>code \<in> set [''PP'', ''ACT'', ''LV'', ''XP'', ''MV'']. ts' code = ts code) \<and>
     (\<forall>code \<in> set [''HP'', ''SP'', ''FORT'', ''REFL'', ''WILL'', ''ATKM'', ''ATKR'', ''ATKU'',
                    ''DEF'']. (ts' code)\<lparr>base := base (ts code)\<rparr> = ts code) \<and>
     (\<forall>code \<in> set [''BM'', ''WM'', ''ENC'']. (ts' code)\<lparr>tmax := tmax (ts code)\<rparr> = ts code) \<and>
     (ts' ''STR'')\<lparr>carry_factor := carry_factor (ts ''STR''),
                   lift_factor := lift_factor (ts ''STR''),
                   push_factor := push_factor (ts ''STR'')\<rparr> = ts ''STR'' \<and>
     (\<forall>code. code \<notin> set [''HP'', ''SP'', ''FORT'', ''REFL'', ''WILL'', ''ATKM'', ''ATKR'', ''ATKU'',
                    ''DEF'', ''BM'', ''WM'', ''ENC'', ''STR''] \<longrightarrow> ts' code = ts code)"
  by (simp add: calc_apply Let_def PRIMARY_TRAITS_def)

theorem secondary_traits_frame_witness:
  "''VIT'' \<in> set PRIMARY_TRAITS \<and> ''MV'' \<in> set [''PP'', ''ACT'', ''LV'', ''XP'', ''MV''] \<and>
   base (calculate_secondary_traits test_store ''VIT'') = 9 \<and>
   tmod (calculate_secondary_traits test_store ''VIT'') = 0 \<and>
   calculate_secondary_traits test_store ''MV'' = test_store ''MV'' \<and>
   base (calculate_secondary_traits test_store ''MV'') = 5"
proof -
  have v: "''VIT'' \<in> set PRIMARY_TRAITS"
    by (simp add: PRIMARY_TRAITS_def)
  have m: "''MV'' \<in> set [''PP'', ''ACT'', ''LV'', ''XP'', ''MV'']"
    by simp
  have t: "tmod (test_store ''VIT'') = 0" "base (test_store ''MV'') = 5"
    by (simp_all add: test_store_def add_base_def trait_factory_def dict_get_def
        Warrior_def Archetype_def set_base_def entry_def)
  from secondary_traits_frame [of test_store]
  have "base (calculate_secondary_traits test_store ''VIT'') = base (test_store ''VIT'')"
    "tmod (calculate_secondary_traits test_store ''VIT'') = tmod (test_store ''VIT'')"
    "calculate_secondary_traits test_store ''MV'' = test_store ''MV''"
    using v m unfolding Let_def by blast+
  then show ?thesis
    using v m t by (simp add: test_store_values)
qed

section \<open>Applying an archetype to a character\<close>

lemma capitalize_simps:
  "capitalize ''warrior'' = ''Warrior''" "capitalize ''Warrior'' = ''Warrior''"
  "capitalize ''Scout'' = ''Scout''"
  by (simp_all add: str_simps)

text \<open>
  Claim C3. On a character without archetype, \<^verbatim>\<open>apply_archetype\<close> with the name
  \<^verbatim>\<open>warrior\<close> records the archetype \<^verbatim>\<open>Warrior\<close> and installs the trait table of the
  loaded Warrior; on the resulting character the name \<^verbatim>\<open>Warrior\<close> without reset raises
  the already-this-archetype exception, and the name \<^verbatim>\<open>Scout\<close> without reset records
  \<^verbatim>\<open>Warrior-Scout\<close> and installs the table that merging the loaded Warrior and Scout
  gives.
\<close>

theorem apply_archetype_sequence:
  assumes "db_archetype char = None"
  shows "\<exists>w s d char1 char2.
     load_archetype roll_max ''Warrior'' = Inr w \<and>
     apply_archetype roll_max char ''warrior'' False = Inr char1 \<and>
     db_archetype char1 = Some ''Warrior'' \<and> db_traits char1 = Some (traits w) \<and>
     apply_archetype roll_max char1 ''Warrior'' False =
       Inl (ArchetypeException ''Character is already a Warrior'') \<and>
     load_archetype roll_max ''Scout'' = Inr s \<and> make_dual roll_max w s = Inr d \<and>
     apply_archetype roll_max char1 ''Scout'' False = Inr char2 \<and>
     db_archetype char2 = Some ''Warrior-Scout'' \<and> db_traits char2 = Some (traits d) \<and>
     map (\<lambda>(k, t). (k, base t, tmod t)) (traits d) =
       [(''STR'', 5, 0), (''PER'', 3, 0), (''INT'', 3, 0), (''DEX'', 4, 0), (''CHA'', 2, 0),
        (''VIT'', 3, 0), (''MAG'', 0, 0), (''BM'', 0, 0), (''WM'', 0, 0), (''HP'', 0, 0),
        (''SP'', 0, 0), (''FORT'', 0, 0), (''REFL'', 0, 0), (''WILL'', 0, 0),
        (''ATKM'', 0, 0), (''ATKR'', 0, 0), (''ATKU'', 0, 0), (''DEF'', 0, 0),
        (''ACT'', 0, 0), (''PP'', 1, 0), (''ENC'', 0, 0), (''MV'', 5, 0), (''LV'', 0, 0),
        (''XP'', 0, 0)]"
proof -
  define char1 where "char1 = char\<lparr>db_traits := Some (traits Warrior), db_archetype := Some ''Warrior''\<rparr>"
  define d where "d = \<lparr>name = Some ''Warrior-Scout'',
         traits = map (\<lambda>(key, trait). (key, merge_trait Warrior Scout key trait)) (traits Archetype),
         health_roll = min_by roll_max (health_roll Warrior) (health_roll Scout)\<rparr>"
  define char2 where "char2 = char1\<lparr>db_traits := Some (traits d), db_archetype := Some ''Warrior-Scout''\<rparr>"
  have md: "make_dual roll_max Warrior Scout = Inr d"
    unfolding d_def by (rule make_dual_ok [where x = "''Warrior''" and y = "''Scout''"])
      (simp_all add: name_simps names_simps)
  have 1: "apply_archetype roll_max char ''warrior'' False = Inr char1"
    using assms
    by (simp del: capitalize.simps add: apply_archetype_def capitalize_simps VALID_ARCHETYPES_def load_Warrior
        name_simps char1_def)
  have 2: "apply_archetype roll_max char1 ''Warrior'' False =
       Inl (ArchetypeException ''Character is already a Warrior'')"
    by (simp del: capitalize.simps add: apply_archetype_def capitalize_simps VALID_ARCHETYPES_def char1_def)
  have 3: "apply_archetype roll_max char1 ''Scout'' False = Inr char2"
    by (simp del: capitalize.simps add: apply_archetype_def capitalize_simps VALID_ARCHETYPES_def char1_def
        load_dual md char2_def d_def)
  have 4: "map (\<lambda>(k, t). (k, base t, tmod t)) (traits d) =
       [(''STR'', 5, 0), (''PER'', 3, 0), (''INT'', 3, 0), (''DEX'', 4, 0), (''CHA'', 2, 0),
        (''VIT'', 3, 0), (''MAG'', 0, 0), (''BM'', 0, 0), (''WM'', 0, 0), (''HP'', 0, 0),
        (''SP'', 0, 0), (''FORT'', 0, 0), (''REFL'', 0, 0), (''WILL'', 0, 0),
        (''ATKM'', 0, 0), (''ATKR'', 0, 0), (''ATKU'', 0, 0), (''DEF'', 0, 0),
        (''ACT'', 0, 0), (''PP'', 1, 0), (''ENC'', 0, 0), (''MV'', 5, 0), (''LV'', 0, 0),
        (''XP'', 0, 0)]"
  proof -
    have "map (\<lambda>(k, t). (k, base t, tmod t))
        (map (\<lambda>(key, trait). (key, merge_trait Warrior Scout key trait)) (traits Archetype)) =
       [(''STR'', 5, 0), (''PER'', 3, 0), (''INT'', 3, 0), (''DEX'', 4, 0), (''CHA'', 2, 0),
        (''VIT'', 3, 0), (''MAG'', 0, 0), (''BM'', 0, 0), (''WM'', 0, 0), (''HP'', 0, 0),
        (''SP'', 0, 0), (''FORT'', 0, 0), (''REFL'', 0, 0), (''WILL'', 0, 0),
        (''ATKM'', 0, 0), (''ATKR'', 0, 0), (''ATKU'', 0, 0), (''DEF'', 0, 0),
        (''ACT'', 0, 0), (''PP'', 1, 0), (''ENC'', 0, 0), (''MV'', 5, 0), (''LV'', 0, 0),
        (''XP'', 0, 0)]"
      by code_simp
    then show ?thesis
      by (simp only: d_def archetype.simps)
  qed
  have 5: "db_archetype char1 = Some ''Warrior''" "db_traits char1 = Some (traits Warrior)"
    "db_archetype char2 = Some ''Warrior-Scout''" "db_traits char2 = Some (traits d)"
    by (simp_all add: char1_def char2_def)
  show ?thesis
    by (rule exI [of _ Warrior], rule exI [of _ Scout], rule exI [of _ d],
        rule exI [of _ char1], rule exI [of _ char2])
      (simp only: 1 2 3 4 5 md load_Warrior load_Scout simp_thms)
qed

theorem apply_archetype_sequence_witness:
  "db_archetype \<lparr>db_archetype = None, db_traits = None\<rparr> = None \<and>
   (\<exists>char1 char2.
     apply_archetype sample_roll_max \<lparr>db_archetype = None, db_traits = None\<rparr> ''warrior'' False =
       Inr char1 \<and>
     db_archetype char1 = Some ''Warrior'' \<and>
     apply_archetype sample_roll_max char1 ''Warrior'' False =
       Inl (ArchetypeException ''Character is already a Warrior'') \<and>
     apply_archetype sample_roll_max char1 ''Scout'' False = Inr char2 \<and>
     db_archetype char2 = Some ''Warrior-Scout'')"
proof -
  have h: "db_archetype \<lparr>db_archetype = None, db_traits = None\<rparr> = None"
    by simp
  from apply_archetype_sequence [OF h, of sample_roll_max] h show ?thesis
    by blast
qed

section \<open>Errors of merging and loading\<close>





lemma load_archetype_single:
  assumes "CHR ''-'' \<notin> set (title n)"
  shows "load_archetype rm n =
     (if title n = ''Archetype'' then Inr Archetype
      else if title n = ''Arcanist'' then Inr Arcanist
      else if title n = ''Scout'' then Inr Scout
      else if title n = ''Warrior'' then Inr Warrior
      else Inl (ArchetypeException ''Invalid archetype specified.''))"
  using assms by (subst load_archetype.simps) (simp add: module_globals_def Let_def)

text \<open>
  Claim C6 at the name \<^verbatim>\<open>archetype\<close>: its title case is the name of the base class in
  the module namespace, which is not one of the three valid archetypes, and
  \<^verbatim>\<open>load_archetype\<close> returns an instance of the base class, whose name is \<open>None\<close>,
  instead of raising. Merging that instance then raises \<^verbatim>\<open>TypeError\<close>.
\<close>

theorem load_archetype_base_class:
  "title ''archetype'' = ''Archetype'' \<and> ''Archetype'' \<notin> set VALID_ARCHETYPES \<and>
   load_archetype sample_roll_max ''archetype'' = Inr Archetype \<and>
   load_archetype sample_roll_max ''Archetype'' = Inr Archetype \<and>
   name Archetype = None \<and>
   load_archetype sample_roll_max ''archetype-warrior'' = Inl TypeError"
proof -
  have t: "title ''archetype'' = ''Archetype''" "title ''Archetype'' = ''Archetype''"
    by (simp_all add: str_simps)
  have l: "load_archetype sample_roll_max ''archetype'' = Inr Archetype"
    "load_archetype sample_roll_max ''Archetype'' = Inr Archetype"
    by (simp_all add: load_archetype_single t)
  have d: "load_archetype sample_roll_max ''archetype-warrior'' = Inl TypeError"
    by (subst load_archetype.simps)
      (simp add: str_simps split_hyphen_def l load_Warrior make_dual_def name_simps)
  show ?thesis
    using t l d by (simp add: VALID_ARCHETYPES_def name_simps)
qed

end
